theory Spec2Isabelle
  imports Complex_Main "HOL-Library.Char_ord" "HOL-Library.List_Lexorder"
begin

section \<open>Data model of \<^verbatim>\<open>data_processing.py\<close>\<close>

text \<open>
  The four input tables are pandas data frames. A frame is modelled as the list of its rows,
  in row order, and a row as a record of the columns the engines read. Identifiers are
  integers, a timestamp is the number of seconds since 1970-01-01 00:00 (a Thursday), a
  price is a rational number. The \<open>plan_id\<close> and \<open>source_id\<close> of a user may be missing
  (\<open>None\<close>).
\<close>

type_synonym timestamp = int

record user =
  u_user_id :: int
  u_signup_date :: timestamp
  u_plan_id :: "int option"
  u_source_id :: "int option"

record event =
  e_user_id :: int
  e_event_type :: string
  e_event_date :: timestamp

record plan =
  p_plan_id :: int
  p_plan_name :: string
  p_price :: rat


text \<open>
  A float of the program is modelled by its exact value: a rational number, one of the two
  infinities, or NaN. Arithmetic on the finite values is exact.
\<close>

datatype fl = Fin rat | PInf | NInf | NaN

text \<open>\<^verbatim>\<open>a / b\<close> on two counts, as numpy divides: \<open>0/0\<close> is NaN, \<open>a/0\<close> is infinite.\<close>

definition fdiv :: "int \<Rightarrow> int \<Rightarrow> fl" where
  "fdiv a b =
     (if b \<noteq> 0 then Fin (of_int a / of_int b)
      else if a = 0 then NaN else if 0 < a then PInf else NInf)"

definition fmap :: "(rat \<Rightarrow> rat) \<Rightarrow> fl \<Rightarrow> fl" where
  "fmap f x = (case x of Fin r \<Rightarrow> Fin (f r) | PInf \<Rightarrow> PInf | NInf \<Rightarrow> NInf | NaN \<Rightarrow> NaN)"

text \<open>\<^verbatim>\<open>100 - x\<close>: the infinities change sign.\<close>

definition fsub_from :: "rat \<Rightarrow> fl \<Rightarrow> fl" where
  "fsub_from c x = (case x of Fin r \<Rightarrow> Fin (c - r) | PInf \<Rightarrow> NInf | NInf \<Rightarrow> PInf | NaN \<Rightarrow> NaN)"

text \<open>\<^verbatim>\<open>fillna(v)\<close> on one cell.\<close>

definition fillna :: "rat \<Rightarrow> fl \<Rightarrow> fl" where
  "fillna v x = (case x of NaN \<Rightarrow> Fin v | _ \<Rightarrow> x)"

text \<open>
  \<^verbatim>\<open>round(x, 2)\<close>: the nearest multiple of 1/100, a tie going to the even one. A value
  that is not finite is returned as it is.
\<close>

definition round_half_even :: "rat \<Rightarrow> int" where
  "round_half_even x =
     (let f = \<lfloor>x\<rfloor>; d = x - of_int f
      in if d < 1 / 2 then f else if 1 / 2 < d then f + 1 else if even f then f else f + 1)"

definition round2 :: "rat \<Rightarrow> rat" where
  "round2 x = of_int (round_half_even (x * 100)) / 100"

definition fround2 :: "fl \<Rightarrow> fl" where
  "fround2 = fmap round2"

text \<open>
  \<^verbatim>\<open>Series.pct_change()\<close>: the first cell is NaN, every later cell is
  \<^verbatim>\<open>x[i] / x[i-1] - 1\<close>.
\<close>

fun pct_change_from :: "int \<Rightarrow> int list \<Rightarrow> fl list" where
  "pct_change_from prev [] = []"
| "pct_change_from prev (x # xs) = fmap (\<lambda>r. r - 1) (fdiv x prev) # pct_change_from x xs"

definition pct_change :: "int list \<Rightarrow> fl list" where
  "pct_change xs = (case xs of [] \<Rightarrow> [] | x # rest \<Rightarrow> NaN # pct_change_from x rest)"

text \<open>\<^verbatim>\<open>Series.nunique()\<close> and \<^verbatim>\<open>Series.unique()\<close> on a column of user ids.\<close>

definition unique :: "int list \<Rightarrow> int list" where
  "unique xs = rev (remdups (rev xs))"

definition nunique :: "int list \<Rightarrow> int" where
  "nunique xs = int (length (remdups xs))"

section \<open>Funnel metrics\<close>

text \<open>
  \<^verbatim>\<open>events_df.groupby('event_type')['user_id'].nunique().reindex(stages).fillna(0)\<close>:
  one count per entry of \<open>stages\<close>, in that order; a stage without events counts 0.
\<close>

definition stage_count :: "event list \<Rightarrow> string \<Rightarrow> int" where
  "stage_count events_df s = nunique (map e_user_id (filter (\<lambda>e. e_event_type e = s) events_df))"

record funnel_row =
  stage :: string
  users :: int
  conversion_from_start_pct :: fl
  conversion_from_prev_pct :: fl
  drop_off_pct_from_prev :: fl

definition default_stages :: "string list" where
  "default_stages = [''visit'', ''signup'', ''trial'', ''paid'']"

definition conv_prev_cell :: "fl \<Rightarrow> fl" where
  \<comment> \<open>\<^verbatim>\<open>lambda x: round(x * 100 if x != 1 else 100, 2)\<close>\<close>
  "conv_prev_cell x = fround2 (if x \<noteq> Fin 1 then fmap (\<lambda>r. r * 100) x else Fin 100)"

definition compute_funnel :: "event list \<Rightarrow> string list option \<Rightarrow> funnel_row list" where
  "compute_funnel events_df stages_opt =
     (let stages = (case stages_opt of None \<Rightarrow> default_stages | Some l \<Rightarrow> l);
          counts = map (stage_count events_df) stages;
          start = (case counts of [] \<Rightarrow> 0 | c # _ \<Rightarrow> c);
          from_start = map (\<lambda>c. fround2 (fmap (\<lambda>r. r * 100) (fdiv c (if 0 < start then start else 1)))) counts;
          from_prev = map (\<lambda>x. conv_prev_cell (fillna 1 x)) (pct_change counts);
          drop_off = map (\<lambda>x. fround2 (fsub_from 100 x)) from_prev
      in map (\<lambda>(s, c, a, b, d).
            \<lparr>stage = s, users = c, conversion_from_start_pct = a,
             conversion_from_prev_pct = b, drop_off_pct_from_prev = d\<rparr>)
           (zip stages (zip counts (zip from_start (zip from_prev drop_off)))))"

section \<open>Revenue metrics\<close>

record revenue =
  paid_count :: int
  mrr :: rat
  arpu :: rat
  avg_rev_per_paid_user :: fl
  churn_rate_pct_30d :: rat

text \<open>
  \<^verbatim>\<open>left.merge(plans_df, on='plan_id', how='left')\<close>: every left row once per plan row
  with its \<open>plan_id\<close>, and once with missing plan columns when there is none.
\<close>

definition merge_plans :: "user list \<Rightarrow> plan list \<Rightarrow> (user \<times> plan option) list" where
  "merge_plans left plans_df =
     concat (map (\<lambda>u.
        (case filter (\<lambda>p. Some (p_plan_id p) = u_plan_id u) plans_df of
           [] \<Rightarrow> [(u, None)]
         | ps \<Rightarrow> map (\<lambda>p. (u, Some p)) ps)) left)"

text \<open>The \<open>price\<close> column of a merged frame; \<open>None\<close> is a missing price (NaN).\<close>

definition price_col :: "(user \<times> plan option) list \<Rightarrow> rat option list" where
  "price_col merged = map (\<lambda>(u, p). map_option p_price p) merged"

text \<open>\<^verbatim>\<open>Series.sum()\<close> and \<^verbatim>\<open>Series.mean()\<close> skip the missing cells.\<close>

definition present :: "rat option list \<Rightarrow> rat list" where
  "present col = concat (map (\<lambda>c. case c of None \<Rightarrow> [] | Some v \<Rightarrow> [v]) col)"

definition col_sum :: "rat option list \<Rightarrow> rat" where
  "col_sum col = sum_list (present col)"

definition col_mean :: "rat option list \<Rightarrow> fl" where
  "col_mean col =
     (if present col = [] then NaN else Fin (sum_list (present col) / of_nat (length (present col))))"

definition days :: "int \<Rightarrow> int" where
  \<comment> \<open>\<^verbatim>\<open>timedelta(days=n)\<close>, in seconds\<close>
  "days n = n * 86400"

text \<open>
  \<open>now\<close> is the reading of \<^verbatim>\<open>datetime.utcnow()\<close>, used when no \<open>as_of_date\<close> is given.
\<close>

definition compute_revenue_metrics ::
  "timestamp \<Rightarrow> user list \<Rightarrow> event list \<Rightarrow> plan list \<Rightarrow> timestamp option \<Rightarrow> revenue" where
  "compute_revenue_metrics now users_df events_df plans_df as_of_date_opt =
     (let as_of_date = (case as_of_date_opt of None \<Rightarrow> now | Some d \<Rightarrow> d);
          paid_events = filter (\<lambda>e. e_event_type e = ''paid'') events_df;
          paid_users = unique (map e_user_id paid_events);
          paid_cnt = int (length paid_users);
          merged = merge_plans (filter (\<lambda>u. u_user_id u \<in> set paid_users) users_df) plans_df;
          mrr_v = col_sum (price_col merged);
          arpu_v = (if 0 < length users_df then mrr_v / of_nat (length users_df) else 0);
          avg_rev_per_paid = (if 0 < length merged then col_mean (price_col merged) else Fin 0);
          last_30 = as_of_date - days 30;
          recent_paid = nunique (map e_user_id (filter (\<lambda>e. last_30 \<le> e_event_date e) paid_events));
          churn_rate = (if 0 < paid_cnt then 100 * (1 - of_int recent_paid / of_int paid_cnt) else 0)
      in \<lparr>paid_count = paid_cnt, mrr = round2 mrr_v, arpu = round2 arpu_v,
          avg_rev_per_paid_user = fround2 avg_rev_per_paid,
          churn_rate_pct_30d = round2 churn_rate\<rparr>)"

section \<open>Calendar periods\<close>

text \<open>
  \<^verbatim>\<open>dt.to_period('W')\<close> is the week from Monday to Sunday; its \<open>start_time\<close> is the
  Monday at 00:00. Day 0 (1970-01-01) is a Thursday.
\<close>

definition week_start_of :: "timestamp \<Rightarrow> timestamp" where
  "week_start_of t = (let d = t div 86400 in (d - (d + 3) mod 7) * 86400)"

text \<open>
  The day of the month of a day number, by the usual conversion of a day count to a civil
  date (years counted from 1 March, in eras of 400 years).
\<close>

definition day_of_month :: "int \<Rightarrow> int" where
  "day_of_month z =
     (let z1 = z + 719468;
          era = z1 div 146097;
          doe = z1 - era * 146097;
          yoe = (doe - doe div 1460 + doe div 36524 - doe div 146096) div 365;
          doy = doe - (365 * yoe + yoe div 4 - yoe div 100);
          mp = (5 * doy + 2) div 153
      in doy - (153 * mp + 2) div 5 + 1)"

text \<open>\<^verbatim>\<open>dt.to_period('M')\<close>, \<open>start_time\<close>: the first day of the month at 00:00.\<close>

definition month_start_of :: "timestamp \<Rightarrow> timestamp" where
  "month_start_of t = (let d = t div 86400 in (d - (day_of_month d - 1)) * 86400)"

section \<open>Cohort retention\<close>

datatype error =
    ValueError_cohort_by        \<comment> \<open>\<^verbatim>\<open>ValueError("cohort_by must be 'week' or 'month'")\<close>\<close>
  | ValueError_unsupported_metric  \<comment> \<open>\<^verbatim>\<open>ValueError("Unsupported metric")\<close>\<close>
  | KeyError "string list"   \<comment> \<open>\<^verbatim>\<open>KeyError\<close>, with the column labels its message names\<close>

record merged_row =
  m_user_id :: int
  m_event_date :: timestamp
  m_signup_date :: timestamp
  m_cohort :: timestamp
  m_period_number :: int

text \<open>
  \<^verbatim>\<open>df_events.merge(df_users, on='user_id', how='inner')\<close> with the \<open>period_number\<close>
  column: the whole days between signup and event, floor-divided by 7.
\<close>

definition merge_cohort :: "(timestamp \<Rightarrow> timestamp) \<Rightarrow> user list \<Rightarrow> event list \<Rightarrow> merged_row list" where
  "merge_cohort cohort_of users_df events_df =
     concat (map (\<lambda>e. map (\<lambda>u.
         \<lparr>m_user_id = e_user_id e, m_event_date = e_event_date e,
          m_signup_date = u_signup_date u, m_cohort = cohort_of (u_signup_date u),
          m_period_number = ((e_event_date e - u_signup_date u) div 86400) div 7\<rparr>)
       (filter (\<lambda>u. u_user_id u = e_user_id e) users_df)) events_df)"

text \<open>
  A frame with a row index and column labels. \<^verbatim>\<open>pd.DataFrame()\<close> has neither rows nor
  columns.
\<close>

record ('r, 'c, 'v) matrix =
  index :: "'r list"
  columns :: "'c list"
  cells :: "'v list list"

definition empty_frame :: "('r, 'c, 'v) matrix" where
  "empty_frame = \<lparr>index = [], columns = [], cells = []\<rparr>"

text \<open>
  \<^verbatim>\<open>groupby(['cohort', 'period_number'])['user_id'].nunique()\<close>, pivoted: one row per
  cohort and one column per period number that occurs, both ascending; a pair that does
  not occur holds 0 after \<^verbatim>\<open>fillna(0)\<close>.
\<close>

definition pivot_cell :: "merged_row list \<Rightarrow> timestamp \<Rightarrow> int \<Rightarrow> int" where
  "pivot_cell merged c p =
     nunique (map m_user_id (filter (\<lambda>r. m_cohort r = c \<and> m_period_number r = p) merged))"

definition cohort_pivot :: "merged_row list \<Rightarrow> (timestamp, int, int) matrix" where
  "cohort_pivot merged =
     (let idx = sort (remdups (map m_cohort merged));
          cols = sort (remdups (map m_period_number merged))
      in \<lparr>index = idx, columns = cols,
          cells = map (\<lambda>c. map (\<lambda>p. pivot_cell merged c p) cols) idx\<rparr>)"

text \<open>
  \<^verbatim>\<open>cohort_sizes = cohort_pivot.iloc[:, 0]\<close> and the division of each row by its
  own entry of \<open>cohort_sizes\<close>.
\<close>

definition retention_row :: "int list \<Rightarrow> fl list" where
  "retention_row row =
     (case row of [] \<Rightarrow> []
      | cohort_size # _ \<Rightarrow> map (\<lambda>c. fround2 (fmap (\<lambda>r. r * 100) (fdiv c cohort_size))) row)"

definition retention_of :: "merged_row list \<Rightarrow> (timestamp, int, fl) matrix" where
  "retention_of merged =
     (if merged = [] then empty_frame
      else let pv = cohort_pivot merged
           in \<lparr>index = index pv, columns = columns pv, cells = map retention_row (cells pv)\<rparr>)"

definition compute_cohort_retention ::
  "user list \<Rightarrow> event list \<Rightarrow> string \<Rightarrow> error + (timestamp, int, fl) matrix" where
  "compute_cohort_retention users_df events_df cohort_by =
     (if cohort_by = ''week'' then Inr (retention_of (merge_cohort week_start_of users_df events_df))
      else if cohort_by = ''month'' then Inr (retention_of (merge_cohort month_start_of users_df events_df))
      else Inl ValueError_cohort_by)"

section \<open>Weekly growth\<close>

record growth_row =
  week_start :: timestamp
  "value" :: int
  pct_change_pct :: fl











section \<open>Plan and source metrics\<close>

text \<open>
  \<^verbatim>\<open>users_df.merge(paid_events[['user_id']], on='user_id', how='inner')\<close>: a user row once
  for every paid event row of that user.
\<close>

definition merge_paid :: "user list \<Rightarrow> event list \<Rightarrow> user list" where
  "merge_paid users_df paid_events =
     concat (map (\<lambda>u. map (\<lambda>e. u) (filter (\<lambda>e. e_user_id e = u_user_id u) paid_events)) users_df)"

record plan_metrics_row =
  pm_plan_name :: string
  pm_paid_users :: int
  pm_mrr :: rat
  pm_avg_revenue_per_user :: fl

text \<open>
  \<^verbatim>\<open>merged.groupby('plan_name')\<close>: one group per plan name that occurs, in ascending
  order; rows without a plan name are in no group.
\<close>

definition plan_group :: "(user \<times> plan option) list \<Rightarrow> string \<Rightarrow> (user \<times> plan option) list" where
  "plan_group merged n = filter (\<lambda>(u, p). map_option p_plan_name p = Some n) merged"

definition plan_names :: "(user \<times> plan option) list \<Rightarrow> string list" where
  "plan_names merged =
     sort (remdups (concat (map (\<lambda>(u, p). case p of None \<Rightarrow> [] | Some q \<Rightarrow> [p_plan_name q]) merged)))"

definition compute_plan_metrics :: "user list \<Rightarrow> event list \<Rightarrow> plan list \<Rightarrow> plan_metrics_row list" where
  "compute_plan_metrics users_df events_df plans_df =
     (let paid_events = filter (\<lambda>e. e_event_type e = ''paid'') events_df;
          merged = merge_plans (merge_paid users_df paid_events) plans_df
      in map (\<lambda>n. let g = plan_group merged n
                   in \<lparr>pm_plan_name = n,
                       pm_paid_users = nunique (map (\<lambda>(u, p). u_user_id u) g),
                       pm_mrr = col_sum (price_col g),
                       pm_avg_revenue_per_user = col_mean (price_col g)\<rparr>)
           (plan_names merged))"





section \<open>Tables that may lack a column\<close>













section \<open>The CSV runner and the caller's tables\<close>

text \<open>
  The tables handed to \<open>run_all_metrics_from_csv\<close> come from \<^verbatim>\<open>pd.read_csv\<close>: a date
  cell is the text of the file. The runner assigns the parsed column back into the
  caller's frame, so a date cell can hold text, a timestamp, or NaT.
\<close>

datatype date_cell = Text string | Stamp timestamp | NaT




text \<open>
  \<^verbatim>\<open>pd.to_datetime(col, errors='coerce')\<close> on one cell. How a text is read as a date is
  the parameter \<open>parse\<close>; a text that does not parse becomes NaT.
\<close>

definition to_datetime :: "(string \<Rightarrow> timestamp option) \<Rightarrow> date_cell \<Rightarrow> date_cell" where
  "to_datetime parse c =
     (case c of
        Text s \<Rightarrow> (case parse s of Some t \<Rightarrow> Stamp t | None \<Rightarrow> NaT)
      | Stamp t \<Rightarrow> Stamp t
      | NaT \<Rightarrow> NaT)"






section \<open>The specification's formulas and the concrete tables\<close>

text \<open>
  The specification's conversion from the previous stage:
  \<open>count[i] / count[i-1] * 100\<close> rounded to 2 decimals for \<open>i > 0\<close>, and 100 for \<open>i = 0\<close>.
\<close>

definition spec_conversion_from_prev_pct :: "int list \<Rightarrow> nat \<Rightarrow> fl" where
  "spec_conversion_from_prev_pct count i =
     (if i = 0 then Fin 100
      else fround2 (fmap (\<lambda>r. r * 100) (fdiv (count ! i) (count ! (i - 1)))))"

text \<open>
  The specification's funnel scenario: user 1 visits on 2025-01-01 and signs up on
  2025-01-02.
\<close>

definition scenario_events :: "event list" where
  "scenario_events =
     [\<lparr>e_user_id = 1, e_event_type = ''visit'', e_event_date = 1735689600\<rparr>,
      \<lparr>e_user_id = 1, e_event_type = ''signup'', e_event_date = 1735776000\<rparr>]"

text \<open>
  Three users: 1 and 2 sign up in the week of Monday 2025-01-06, 3 in the week of
  2025-01-13. User 1 has an event on the signup day; users 2 and 3 have their only event
  8 days after signup.
\<close>

definition late_users :: "user list" where
  "late_users =
     [\<lparr>u_user_id = 1, u_signup_date = 1736121600, u_plan_id = Some 1, u_source_id = Some 1\<rparr>,
      \<lparr>u_user_id = 2, u_signup_date = 1736208000, u_plan_id = Some 1, u_source_id = Some 1\<rparr>,
      \<lparr>u_user_id = 3, u_signup_date = 1736726400, u_plan_id = Some 1, u_source_id = Some 1\<rparr>]"

definition late_events :: "event list" where
  "late_events =
     [\<lparr>e_user_id = 1, e_event_type = ''visit'', e_event_date = 1736121600\<rparr>,
      \<lparr>e_user_id = 2, e_event_type = ''visit'', e_event_date = 1736899200\<rparr>,
      \<lparr>e_user_id = 3, e_event_type = ''visit'', e_event_date = 1737417600\<rparr>]"

text \<open>One user on the Basic plan (price 10) with two paid events.\<close>

definition one_user :: "user list" where
  "one_user = [\<lparr>u_user_id = 1, u_signup_date = 1735689600, u_plan_id = Some 1, u_source_id = Some 1\<rparr>]"

definition basic_plan :: "plan list" where
  "basic_plan = [\<lparr>p_plan_id = 1, p_plan_name = ''Basic'', p_price = 10\<rparr>]"

definition paid_twice :: "event list" where
  "paid_twice =
     [\<lparr>e_user_id = 1, e_event_type = ''paid'', e_event_date = 1735776000\<rparr>,
      \<lparr>e_user_id = 1, e_event_type = ''paid'', e_event_date = 1738454400\<rparr>]"

















section \<open>Properties\<close>

lemmas fl_defs = fdiv_def fmap_def fsub_from_def fillna_def fround2_def round2_def
  round_half_even_def

subsection \<open>Funnel\<close>

text \<open>
  C1. The conversion from the previous stage is \<open>count[i] / count[i-1] * 100\<close> for
  \<open>i > 0\<close> and 100 for \<open>i = 0\<close>. On the specification's scenario the counts are
  1, 1, 0, 0; the column computed by \<open>compute_funnel\<close> is 100, 0, -100, 100 (the relative
  change of the count, times 100), where the formula gives 100 for the second stage and
  0 for the third.
\<close>

theorem funnel_prev_scenario:
  "map users (compute_funnel scenario_events None) = [1, 1, 0, 0]
   \<and> map conversion_from_prev_pct (compute_funnel scenario_events None)
       = [Fin 100, Fin 0, Fin (- 100), Fin 100]
   \<and> map drop_off_pct_from_prev (compute_funnel scenario_events None)
       = [Fin 0, Fin 100, Fin 200, Fin 0]
   \<and> map (spec_conversion_from_prev_pct [1, 1, 0, 0]) [0, 1, 2] = [Fin 100, Fin 100, Fin 0]"
  by (simp add: compute_funnel_def scenario_events_def default_stages_def stage_count_def
      nunique_def pct_change_def conv_prev_cell_def spec_conversion_from_prev_pct_def fl_defs)

subsection \<open>Cohort retention\<close>

text \<open>
  C2. Every row of the retention matrix holds 100 in its first column, and the count
  behind that column is the cohort's number of distinct users. For the three users above
  the pivot is \<open>[[1, 1], [0, 1]]\<close>: the first cohort has two distinct users but 1 in its
  first column, and the second cohort has 0 there, so that its retention row is NaN and
  infinity.
\<close>

theorem cohort_first_column_late_events:
  "compute_cohort_retention late_users late_events ''week''
     = Inr \<lparr>index = [1736121600, 1736726400], columns = [0, 1],
            cells = [[Fin 100, Fin 100], [NaN, PInf]]\<rparr>
   \<and> cells (cohort_pivot (merge_cohort week_start_of late_users late_events)) = [[1, 1], [0, 1]]
   \<and> nunique (map m_user_id (filter (\<lambda>r. m_cohort r = 1736121600)
        (merge_cohort week_start_of late_users late_events))) = 2"
  by (simp add: compute_cohort_retention_def retention_of_def cohort_pivot_def pivot_cell_def
      merge_cohort_def week_start_of_def retention_row_def late_users_def late_events_def
      nunique_def empty_frame_def fl_defs)

subsection \<open>Plan metrics\<close>

text \<open>
  C5. A user with several paid events contributes the plan price once to the \<open>mrr\<close> of
  the plan. For one user on the Basic plan (price 10) with two paid events,
  \<open>compute_plan_metrics\<close> reports 1 paid user and an \<open>mrr\<close> of 20, where
  \<open>compute_revenue_metrics\<close> reports an \<open>mrr\<close> of 10 on the same tables.
\<close>

theorem plan_mrr_paid_twice:
  "compute_plan_metrics one_user paid_twice basic_plan
     = [\<lparr>pm_plan_name = ''Basic'', pm_paid_users = 1, pm_mrr = 20,
         pm_avg_revenue_per_user = Fin 10\<rparr>]
   \<and> mrr (compute_revenue_metrics 1738454400 one_user paid_twice basic_plan None) = 10"
  by code_simp

subsection \<open>Counting distinct users\<close>


lemma nunique_card: "nunique xs = int (card (set xs))"
  by (simp add: nunique_def length_remdups_card_conv)

lemma set_unique: "set (unique xs) = set xs"
  by (simp add: unique_def)

lemma length_unique: "length (unique xs) = card (set xs)"
  by (simp add: unique_def length_remdups_card_conv)



subsection \<open>Revenue\<close>




text \<open>
  C10. Appending a copy of a paid event row that the events table already has leaves the
  whole revenue summary unchanged.
\<close>

theorem revenue_duplicate_paid_event:
  assumes "e \<in> set events_df" and "e_event_type e = ''paid''"
  shows "compute_revenue_metrics now users_df (events_df @ [e]) plans_df as_of_date_opt
           = compute_revenue_metrics now users_df events_df plans_df as_of_date_opt"
proof -
  let ?paid = "filter (\<lambda>e. e_event_type e = ''paid'')"
  have p: "?paid (events_df @ [e]) = ?paid events_df @ [e]"
    using assms by simp
  have ein: "e \<in> set (?paid events_df)"
    using assms by simp
  have s1: "set (map e_user_id (?paid events_df @ [e])) = set (map e_user_id (?paid events_df))"
    using ein by auto
  have u: "set (unique (map e_user_id (?paid (events_df @ [e])))) = set (unique (map e_user_id (?paid events_df)))"
    by (simp only: p set_unique s1)
  have l: "length (unique (map e_user_id (?paid (events_df @ [e])))) = length (unique (map e_user_id (?paid events_df)))"
    by (simp only: p length_unique s1)
  have r: "nunique (map e_user_id (filter (\<lambda>e. c \<le> e_event_date e) (?paid (events_df @ [e]))))
         = nunique (map e_user_id (filter (\<lambda>e. c \<le> e_event_date e) (?paid events_df)))" for c
  proof -
    have "set (map e_user_id (filter (\<lambda>e. c \<le> e_event_date e) (?paid events_df @ [e])))
        = set (map e_user_id (filter (\<lambda>e. c \<le> e_event_date e) (?paid events_df)))"
      using ein by auto
    then show ?thesis by (simp only: p nunique_card)
  qed
  show ?thesis
    unfolding compute_revenue_metrics_def Let_def
    by (simp only: u l r)
qed

theorem revenue_duplicate_paid_event_witness:
  "compute_revenue_metrics 1738454400 one_user (paid_twice @ [hd paid_twice]) basic_plan None
     = compute_revenue_metrics 1738454400 one_user paid_twice basic_plan None"
proof -
  have a: "hd paid_twice \<in> set paid_twice" by (simp add: paid_twice_def)
  have b: "e_event_type (hd paid_twice) = ''paid''" by (simp add: paid_twice_def)
  show ?thesis using revenue_duplicate_paid_event [OF a b] by simp
qed

subsection \<open>Empty events table\<close>



subsection \<open>Weekly growth: the pieces of the series\<close>



lemma length_pct_change_from: "length (pct_change_from p xs) = length xs"
  by (induction xs arbitrary: p) simp_all

lemma length_pct_change: "length (pct_change xs) = length xs"
  by (cases xs) (simp_all add: pct_change_def length_pct_change_from)

lemma pct_change_from_nth:
  "i < length xs \<Longrightarrow> pct_change_from p xs ! i = fmap (\<lambda>r. r - 1) (fdiv (xs ! i) ((p # xs) ! i))"
  by (induction xs arbitrary: p i) (auto simp add: nth_Cons')

lemma pct_change_nth:
  "0 < i \<Longrightarrow> i < length xs \<Longrightarrow> pct_change xs ! i = fmap (\<lambda>r. r - 1) (fdiv (xs ! i) (xs ! (i - 1)))"
  by (cases xs) (auto simp add: pct_change_def pct_change_from_nth nth_Cons')

lemma pct_change_0: "xs \<noteq> [] \<Longrightarrow> pct_change xs ! 0 = NaN"
  by (cases xs) (simp_all add: pct_change_def)








subsection \<open>Week starts and the 7-day range\<close>

text \<open>
  Some dates: 2025-01-01 is a Wednesday in the week of Monday 2024-12-30; the months of
  2024-02-29 and of 1969-12-31 start on 2024-02-01 and 1969-12-01.
\<close>

lemma calendar_examples:
  "week_start_of 1735689600 = 1735516800"
  "month_start_of 1709251199 = 1706745600"
  "month_start_of 1709251200 = 1709251200"
  "month_start_of (- 86400) = - 2678400"
  by code_simp+










subsection \<open>The reindexed series\<close>

























subsection \<open>What the funnel and retention columns hold\<close>

text \<open>
  The column \<open>conversion_from_prev_pct\<close> holds 100 in its first row and, after a stage
  with a count other than 0, the relative change of the count times 100. The first
  column of a retention row holds 100 unless the count behind it is 0.
\<close>

lemma conv_prev_cell_Fin: "conv_prev_cell (Fin q) = Fin (round2 (q * 100))"
  by (cases "q = 1") (simp_all add: conv_prev_cell_def fround2_def fmap_def)

lemma funnel_prev_first:
  assumes "stages \<noteq> []"
  shows "conversion_from_prev_pct (compute_funnel events_df (Some stages) ! 0) = Fin 100"
proof -
  let ?counts = "map (stage_count events_df) stages"
  have "pct_change ?counts ! 0 = NaN"
    using assms by (simp add: pct_change_0)
  moreover have "conversion_from_prev_pct (compute_funnel events_df (Some stages) ! 0)
     = conv_prev_cell (fillna 1 (pct_change ?counts ! 0))"
    using assms by (simp add: compute_funnel_def Let_def length_pct_change)
  ultimately show ?thesis
    by (simp add: fillna_def conv_prev_cell_def fround2_def fmap_def round2_def round_half_even_def)
qed

lemma funnel_prev_relative_change:
  assumes "0 < i" and "i < length stages"
    and "stage_count events_df (stages ! (i - 1)) \<noteq> 0"
  shows "conversion_from_prev_pct (compute_funnel events_df (Some stages) ! i)
     = Fin (round2 ((of_int (stage_count events_df (stages ! i))
                      / of_int (stage_count events_df (stages ! (i - 1))) - 1) * 100))"
proof -
  let ?counts = "map (stage_count events_df) stages"
  have "pct_change ?counts ! i = fmap (\<lambda>r. r - 1) (fdiv (?counts ! i) (?counts ! (i - 1)))"
    using assms by (simp add: pct_change_nth)
  then have p: "pct_change ?counts ! i
     = Fin (of_int (stage_count events_df (stages ! i))
             / of_int (stage_count events_df (stages ! (i - 1))) - 1)"
    using assms by (simp add: fdiv_def fmap_def)
  have "conversion_from_prev_pct (compute_funnel events_df (Some stages) ! i)
     = conv_prev_cell (fillna 1 (pct_change ?counts ! i))"
    using assms by (simp add: compute_funnel_def Let_def length_pct_change)
  then show ?thesis
    by (simp add: p fillna_def conv_prev_cell_Fin)
qed

lemma retention_row_first:
  "retention_row (c # cs) ! 0 = (if c = 0 then NaN else Fin 100)"
  by (simp add: retention_row_def fl_defs)

subsection \<open>Missing columns\<close>

text \<open>
  The funnel does not read \<open>event_date\<close> and the cohort engine does not read
  \<open>event_type\<close>: replacing that field in every row changes nothing.
\<close>

lemma stage_count_ignores_dates:
  "stage_count (map (\<lambda>e. e\<lparr>e_event_date := f e\<rparr>) events_df) s = stage_count events_df s"
  by (simp add: stage_count_def filter_map comp_def)

lemma funnel_ignores_event_date:
  "compute_funnel (map (\<lambda>e. e\<lparr>e_event_date := f e\<rparr>) events_df) stages_opt
     = compute_funnel events_df stages_opt"
proof -
  have "stage_count (map (\<lambda>e. e\<lparr>e_event_date := f e\<rparr>) events_df) = stage_count events_df"
    by (rule ext) (rule stage_count_ignores_dates)
  then show ?thesis by (simp add: compute_funnel_def)
qed

lemma merge_cohort_ignores_event_type:
  "merge_cohort c users_df (map (\<lambda>e. e\<lparr>e_event_type := f e\<rparr>) events_df)
     = merge_cohort c users_df events_df"
  by (simp add: merge_cohort_def comp_def)

lemma cohort_ignores_event_type:
  "compute_cohort_retention users_df (map (\<lambda>e. e\<lparr>e_event_type := f e\<rparr>) events_df) cohort_by
     = compute_cohort_retention users_df events_df cohort_by"
  by (simp add: compute_cohort_retention_def merge_cohort_ignores_event_type)






subsection \<open>The caller's tables\<close>

lemma to_datetime_no_text: "to_datetime parse c \<noteq> Text s"
  by (simp add: to_datetime_def split: date_cell.splits option.splits)




end
